theory Spec2Isabelle
  imports Main
begin

section \<open>The HTTP client wrapper: \<^verbatim>\<open>src/frontend/src/api/apiClient.js\<close>\<close>

subsection \<open>Ambient data: build environment and browser storage\<close>

text \<open>
  \<^verbatim>\<open>import.meta.env\<close> is an object of string-valued variables; a variable that was not
  supplied reads as \<^verbatim>\<open>undefined\<close>, here \<open>None\<close>.
\<close>

type_synonym env = "string \<rightharpoonup> string"

text \<open>
  \<^verbatim>\<open>localStorage\<close> holds strings under string keys. \<^verbatim>\<open>getItem\<close> returns the stored
  string, or \<^verbatim>\<open>null\<close> (here \<open>None\<close>) when the key has no entry.
\<close>

type_synonym storage = "string \<rightharpoonup> string"

definition getItem :: "storage \<Rightarrow> string \<Rightarrow> string option" where
  "getItem st key = st key"

text \<open>
  JavaScript truthiness of a value that is \<^verbatim>\<open>null\<close> or a string: \<^verbatim>\<open>null\<close> and the
  empty string are falsy, every other string is truthy.
\<close>

definition truthy :: "string option \<Rightarrow> bool" where
  "truthy v = (case v of None \<Rightarrow> False | Some s \<Rightarrow> s \<noteq> [])"

text \<open>
  String conversion inside a template literal: a string stands for itself,
  \<^verbatim>\<open>null\<close> is printed as the four letters \<^verbatim>\<open>null\<close>.
\<close>

definition to_string :: "string option \<Rightarrow> string" where
  "to_string v = (case v of None \<Rightarrow> ''null'' | Some s \<Rightarrow> s)"

subsection \<open>Request configuration\<close>

text \<open>
  A request configuration is an object with a \<^verbatim>\<open>headers\<close> object (header name to
  value; the configuration handed to a request interceptor always has one) and further
  fields. The fields the client names are listed; a field that is not set is \<open>None\<close>.
  Theorems are stated over \<open>'a config_scheme\<close>, so that the extension part stands
  for every field not listed here.
\<close>

record config =
  url :: "string option"
  http_method :: "string option"
  baseURL :: "string option"
  headers :: "string \<rightharpoonup> string"
  data :: "string option"

subsection \<open>The client instance\<close>

text \<open>
  \<^verbatim>\<open>const API_BASE_URL = import.meta.env.VITE_API_BASE_URL;\<close>
\<close>

definition API_BASE_URL :: "env \<Rightarrow> string option" where
  "API_BASE_URL e = e ''VITE_API_BASE_URL''"

text \<open>
  The object literal passed to \<^verbatim>\<open>axios.create\<close>: it sets \<^verbatim>\<open>baseURL\<close> and one
  header and nothing else.
\<close>

definition apiClient_options :: "env \<Rightarrow> config" where
  "apiClient_options e =
     \<lparr> url = None,
       http_method = None,
       baseURL = API_BASE_URL e,
       headers = [''Content-Type'' \<mapsto> ''application/json''],
       data = None \<rparr>"

text \<open>
  \<^verbatim>\<open>const apiClient = axios.create({...})\<close>. The factory \<^verbatim>\<open>axios.create\<close> belongs to
  the axios library, so it is a parameter: the instance is whatever the factory builds
  from the options above.
\<close>

definition apiClient :: "(config \<Rightarrow> 'inst) \<Rightarrow> env \<Rightarrow> 'inst" where
  "apiClient create e = create (apiClient_options e)"

subsection \<open>The request interceptor\<close>

text \<open>
  The first handler given to \<^verbatim>\<open>apiClient.interceptors.request.use\<close>:
  \<^verbatim>\<open>
  (config) => {
    const token = localStorage.getItem("accessToken");
    if (token) {
      config.headers["Authorization"] = `Bearer ${token}`;
    }
    return config;
  }
  \<close>
  The assignment updates the \<^verbatim>\<open>headers\<close> object in place; the model returns the
  configuration after the call and takes the one before the call as its argument.
  Storage is only read.
\<close>

definition request_onFulfilled :: "storage \<Rightarrow> 'a config_scheme \<Rightarrow> 'a config_scheme" where
  "request_onFulfilled st cfg =
     (let token = getItem st ''accessToken'' in
      if truthy token
      then cfg\<lparr>headers := (headers cfg)(''Authorization'' \<mapsto> ''Bearer '' @ to_string token)\<rparr>
      else cfg)"

text \<open>
  A settled promise is either fulfilled with a value or rejected with a reason;
  \<^verbatim>\<open>Promise.reject(r)\<close> is the promise rejected with \<open>r\<close>.
\<close>

datatype ('v, 'e) promise = Fulfilled 'v | Rejected 'e

definition Promise_reject :: "'e \<Rightarrow> ('v, 'e) promise" where
  "Promise_reject r = Rejected r"

text \<open>
  \<^verbatim>\<open>p.then(f, g)\<close> on a settled promise, for handlers that return promises: the
  handler of the matching state runs on the value or on the reason.
\<close>

definition promise_then ::
  "('v \<Rightarrow> ('w, 'e) promise) \<Rightarrow> ('e \<Rightarrow> ('w, 'e) promise) \<Rightarrow> ('v, 'e) promise \<Rightarrow> ('w, 'e) promise" where
  "promise_then f g p = (case p of Fulfilled v \<Rightarrow> f v | Rejected r \<Rightarrow> g r)"

text \<open>
  The second handler given to \<^verbatim>\<open>apiClient.interceptors.request.use\<close>:
  \<^verbatim>\<open>(error) => { return Promise.reject(error); }\<close>
\<close>

definition request_onRejected :: "'e \<Rightarrow> ('v, 'e) promise" where
  "request_onRejected error = Promise_reject error"

section \<open>The route table: \<^verbatim>\<open>src/frontend/src/App.jsx\<close>\<close>

text \<open>
  A JSX element is a tag with children, or a piece of text. A \<^verbatim>\<open>Route\<close> carries a
  \<^verbatim>\<open>path\<close> and an \<^verbatim>\<open>element\<close>; \<^verbatim>\<open>App\<close> returns \<^verbatim>\<open>Routes\<close> around three of them,
  in this order.
\<close>

datatype jsx = Text string | Element string "jsx list"

record route =
  path :: string
  element :: jsx

definition h1 :: "string \<Rightarrow> jsx" where
  "h1 s = Element ''h1'' [Text s]"

definition App :: "route list" where
  "App =
     [ \<lparr> path = ''/login'', element = h1 ''Login Page'' \<rparr>,
       \<lparr> path = ''/'', element = h1 ''Dashboard Page'' \<rparr>,
       \<lparr> path = ''/settings'', element = h1 ''Settings Page'' \<rparr> ]"

text \<open>The element declared for a path, if any (the first declaration wins).\<close>

definition declared_element :: "route list \<Rightarrow> string \<Rightarrow> jsx option" where
  "declared_element rs p = map_of (map (\<lambda>r. (path r, element r)) rs) p"

section \<open>Properties of the request interceptor\<close>

text \<open>
  C1, as amended. For every request configuration and every storage state in which a
  non-empty token string is stored under the key \<^verbatim>\<open>accessToken\<close>, the success
  handler returns a configuration whose \<^verbatim>\<open>Authorization\<close> header is exactly the
  string \<^verbatim>\<open>Bearer \<close> followed by the stored token.
\<close>

theorem request_onFulfilled_bearer:
  "st ''accessToken'' = Some t \<Longrightarrow> t \<noteq> [] \<Longrightarrow>
   headers (request_onFulfilled st cfg) ''Authorization'' = Some (''Bearer '' @ t)"
  by (simp add: request_onFulfilled_def getItem_def truthy_def to_string_def)

theorem request_onFulfilled_bearer_witness:
  "[''accessToken'' \<mapsto> ''abc''] ''accessToken'' = Some ''abc'' \<and> ''abc'' \<noteq> [] \<and>
   headers (request_onFulfilled [''accessToken'' \<mapsto> ''abc'']
      \<lparr> url = Some ''/problems'', http_method = Some ''get'', baseURL = None,
        headers = [''Content-Type'' \<mapsto> ''application/json''], data = None \<rparr>)
     ''Authorization'' = Some ''Bearer abc''"
  using request_onFulfilled_bearer
    [where st = "[''accessToken'' \<mapsto> ''abc'']" and t = "''abc''"
       and cfg = "\<lparr> url = Some ''/problems'', http_method = Some ''get'', baseURL = None,
        headers = [''Content-Type'' \<mapsto> ''application/json''], data = None \<rparr>"]
  by simp

text \<open>
  C1 as written quantifies over every stored string, the empty one included. The empty
  string is falsy, so with \<^verbatim>\<open>""\<close> stored the handler sets no header: the result has
  no \<^verbatim>\<open>Authorization\<close> header at all, and in particular not \<^verbatim>\<open>Bearer \<close> followed by
  the stored (empty) value.
\<close>

theorem request_onFulfilled_bearer_counterexample:
  "[''accessToken'' \<mapsto> ''''] ''accessToken'' = Some '''' \<and>
   headers (request_onFulfilled [''accessToken'' \<mapsto> '''']
      \<lparr> url = Some ''/problems'', http_method = Some ''get'', baseURL = None,
        headers = [''Content-Type'' \<mapsto> ''application/json''], data = None \<rparr>)
     ''Authorization'' = None \<and>
   None \<noteq> Some (''Bearer '' @ '''')"
  by (simp add: request_onFulfilled_def getItem_def truthy_def)

text \<open>
  C2, as amended. For every request configuration, if no token is stored under the key
  \<^verbatim>\<open>accessToken\<close>, the success handler returns the input configuration unchanged:
  every field, the headers included, equals the corresponding field of the input, so the
  \<^verbatim>\<open>Authorization\<close> header is absent from the result exactly when it was absent from
  the input.
\<close>

theorem request_onFulfilled_no_token:
  "st ''accessToken'' = None \<Longrightarrow>
   request_onFulfilled st cfg = cfg \<and>
   (headers (request_onFulfilled st cfg) ''Authorization'' = None
      \<longleftrightarrow> headers cfg ''Authorization'' = None)"
  by (simp add: request_onFulfilled_def getItem_def truthy_def)

theorem request_onFulfilled_no_token_witness:
  "[''theme'' \<mapsto> ''dark''] ''accessToken'' = None \<and>
   request_onFulfilled [''theme'' \<mapsto> ''dark'']
      \<lparr> url = Some ''/login'', http_method = Some ''post'', baseURL = None,
        headers = [''Content-Type'' \<mapsto> ''application/json''], data = Some ''{}'' \<rparr>
   = \<lparr> url = Some ''/login'', http_method = Some ''post'', baseURL = None,
        headers = [''Content-Type'' \<mapsto> ''application/json''], data = Some ''{}'' \<rparr>"
  using request_onFulfilled_no_token
    [where st = "[''theme'' \<mapsto> ''dark'']"
       and cfg = "\<lparr> url = Some ''/login'', http_method = Some ''post'', baseURL = None,
        headers = [''Content-Type'' \<mapsto> ''application/json''], data = Some ''{}'' \<rparr>"]
  by simp

text \<open>
  C2 as written promises that the header is absent from the result. The handler has no
  branch that removes a header: a caller that put its own \<^verbatim>\<open>Authorization\<close> header on
  the request finds it still there when storage holds no token.
\<close>

theorem request_onFulfilled_no_token_counterexample:
  "(Map.empty :: storage) ''accessToken'' = None \<and>
   headers (request_onFulfilled Map.empty
      \<lparr> url = Some ''/problems'', http_method = Some ''get'', baseURL = None,
        headers = [''Authorization'' \<mapsto> ''Basic xyz''], data = None \<rparr>)
     ''Authorization'' \<noteq> None"
  by (simp add: request_onFulfilled_def getItem_def truthy_def)

text \<open>
  C3. For every error value, the error handler returns a rejection that carries exactly
  that value: the promise is the one rejected with the error, whatever handler the caller
  attaches for rejection receives that same error (and the handler for fulfilment is not
  run), and two errors give the same rejection only if they are the same error.
\<close>

theorem request_onRejected_identity:
  "request_onRejected e = Rejected e \<and>
   promise_then f g (request_onRejected e) = g e \<and>
   (request_onRejected e = (request_onRejected e' :: ('v, 'e) promise)) = (e = e')"
  by (simp add: request_onRejected_def Promise_reject_def promise_then_def)

text \<open>
  C4. For every request configuration and every storage state in which a token string
  is stored under \<^verbatim>\<open>accessToken\<close>, the success handler changes at most the
  \<^verbatim>\<open>Authorization\<close> header: every other header and every other field of the result
  equals that of the input.
\<close>

theorem request_onFulfilled_frame:
  "st ''accessToken'' = Some t \<Longrightarrow>
   (\<forall>k. k \<noteq> ''Authorization'' \<longrightarrow>
      headers (request_onFulfilled st cfg) k = headers cfg k) \<and>
   url (request_onFulfilled st cfg) = url cfg \<and>
   http_method (request_onFulfilled st cfg) = http_method cfg \<and>
   baseURL (request_onFulfilled st cfg) = baseURL cfg \<and>
   data (request_onFulfilled st cfg) = data cfg \<and>
   config.more (request_onFulfilled st cfg) = config.more cfg"
  by (simp add: request_onFulfilled_def Let_def)

theorem request_onFulfilled_frame_witness:
  "[''accessToken'' \<mapsto> ''abc''] ''accessToken'' = Some ''abc'' \<and>
   ''Content-Type'' \<noteq> ''Authorization'' \<and>
   headers (request_onFulfilled [''accessToken'' \<mapsto> ''abc'']
      \<lparr> url = Some ''/problems'', http_method = Some ''get'', baseURL = None,
        headers = [''Content-Type'' \<mapsto> ''application/json''], data = None \<rparr>)
     ''Content-Type'' = Some ''application/json'' \<and>
   url (request_onFulfilled [''accessToken'' \<mapsto> ''abc'']
      \<lparr> url = Some ''/problems'', http_method = Some ''get'', baseURL = None,
        headers = [''Content-Type'' \<mapsto> ''application/json''], data = None \<rparr>)
     = Some ''/problems''"
  using request_onFulfilled_frame
    [where st = "[''accessToken'' \<mapsto> ''abc'']" and t = "''abc''"
       and cfg = "\<lparr> url = Some ''/problems'', http_method = Some ''get'', baseURL = None,
        headers = [''Content-Type'' \<mapsto> ''application/json''], data = None \<rparr>"]
  by simp

text \<open>
  C7. The success handler is determined by the input configuration and by what storage
  holds under \<^verbatim>\<open>accessToken\<close>: two runs on equal configurations, with storages that
  agree on that one key (and may differ on every other key), return equal configurations.
\<close>

theorem request_onFulfilled_deterministic:
  "st1 ''accessToken'' = st2 ''accessToken'' \<Longrightarrow> cfg1 = cfg2 \<Longrightarrow>
   request_onFulfilled st1 cfg1 = request_onFulfilled st2 cfg2"
  by (simp add: request_onFulfilled_def getItem_def)

theorem request_onFulfilled_deterministic_witness:
  "[''accessToken'' \<mapsto> ''abc'', ''theme'' \<mapsto> ''dark''] ''accessToken''
     = [''accessToken'' \<mapsto> ''abc''] ''accessToken'' \<and>
   request_onFulfilled [''accessToken'' \<mapsto> ''abc'', ''theme'' \<mapsto> ''dark'']
      \<lparr> url = Some ''/problems'', http_method = Some ''get'', baseURL = None,
        headers = [''Content-Type'' \<mapsto> ''application/json''], data = None \<rparr>
   = request_onFulfilled [''accessToken'' \<mapsto> ''abc'']
      \<lparr> url = Some ''/problems'', http_method = Some ''get'', baseURL = None,
        headers = [''Content-Type'' \<mapsto> ''application/json''], data = None \<rparr>"
  using request_onFulfilled_deterministic
    [where ?st1.0 = "[''accessToken'' \<mapsto> ''abc'', ''theme'' \<mapsto> ''dark'']"
       and ?st2.0 = "[''accessToken'' \<mapsto> ''abc'']"
       and ?cfg1.0 = "\<lparr> url = Some ''/problems'', http_method = Some ''get'', baseURL = None,
        headers = [''Content-Type'' \<mapsto> ''application/json''], data = None \<rparr>"
       and ?cfg2.0 = "\<lparr> url = Some ''/problems'', http_method = Some ''get'', baseURL = None,
        headers = [''Content-Type'' \<mapsto> ''application/json''], data = None \<rparr>"]
  by simp

text \<open>
  C8. If the value stored under \<^verbatim>\<open>accessToken\<close> is the empty string, the presence
  test (truthiness, not a comparison with \<^verbatim>\<open>null\<close>) fails: no \<^verbatim>\<open>Authorization\<close>
  header is added and the configuration is returned unmodified.
\<close>

theorem request_onFulfilled_empty_token:
  "st ''accessToken'' = Some [] \<Longrightarrow>
   \<not> truthy (getItem st ''accessToken'') \<and>
   request_onFulfilled st cfg = cfg \<and>
   headers (request_onFulfilled st cfg) ''Authorization'' = headers cfg ''Authorization''"
  by (simp add: request_onFulfilled_def getItem_def truthy_def)

theorem request_onFulfilled_empty_token_witness:
  "[''accessToken'' \<mapsto> ''''] ''accessToken'' = Some [] \<and>
   request_onFulfilled [''accessToken'' \<mapsto> '''']
      \<lparr> url = Some ''/problems'', http_method = Some ''get'', baseURL = None,
        headers = [''Content-Type'' \<mapsto> ''application/json''], data = None \<rparr>
   = \<lparr> url = Some ''/problems'', http_method = Some ''get'', baseURL = None,
        headers = [''Content-Type'' \<mapsto> ''application/json''], data = None \<rparr> \<and>
   headers (request_onFulfilled [''accessToken'' \<mapsto> '''']
      \<lparr> url = Some ''/problems'', http_method = Some ''get'', baseURL = None,
        headers = [''Content-Type'' \<mapsto> ''application/json''], data = None \<rparr>)
     ''Authorization'' = None"
  using request_onFulfilled_empty_token
    [where st = "[''accessToken'' \<mapsto> '''']"
       and cfg = "\<lparr> url = Some ''/problems'', http_method = Some ''get'', baseURL = None,
        headers = [''Content-Type'' \<mapsto> ''application/json''], data = None \<rparr>"]
  by simp

text \<open>
  C9, as amended. If the input configuration already carries an \<^verbatim>\<open>Authorization\<close>
  header and a non-empty token is stored under \<^verbatim>\<open>accessToken\<close>, the handler
  overwrites that header with \<^verbatim>\<open>Bearer \<close> followed by the stored token; if no token
  is stored, the header of the input is left in place, not removed.
\<close>

theorem request_onFulfilled_existing_header:
  "headers cfg ''Authorization'' = Some old \<Longrightarrow>
   (st ''accessToken'' = Some t \<and> t \<noteq> [] \<longrightarrow>
      headers (request_onFulfilled st cfg) ''Authorization'' = Some (''Bearer '' @ t)) \<and>
   (st ''accessToken'' = None \<longrightarrow>
      headers (request_onFulfilled st cfg) ''Authorization'' = Some old)"
  by (simp add: request_onFulfilled_def getItem_def truthy_def to_string_def)

theorem request_onFulfilled_existing_header_witness:
  "headers \<lparr> url = Some ''/problems'', http_method = Some ''get'', baseURL = None,
        headers = [''Authorization'' \<mapsto> ''Basic xyz''], data = None \<rparr> ''Authorization''
     = Some ''Basic xyz'' \<and>
   [''accessToken'' \<mapsto> ''abc''] ''accessToken'' = Some ''abc'' \<and> ''abc'' \<noteq> [] \<and>
   headers (request_onFulfilled [''accessToken'' \<mapsto> ''abc'']
      \<lparr> url = Some ''/problems'', http_method = Some ''get'', baseURL = None,
        headers = [''Authorization'' \<mapsto> ''Basic xyz''], data = None \<rparr>)
     ''Authorization'' = Some ''Bearer abc'' \<and>
   (Map.empty :: storage) ''accessToken'' = None \<and>
   headers (request_onFulfilled Map.empty
      \<lparr> url = Some ''/problems'', http_method = Some ''get'', baseURL = None,
        headers = [''Authorization'' \<mapsto> ''Basic xyz''], data = None \<rparr>)
     ''Authorization'' = Some ''Basic xyz''"
  using request_onFulfilled_existing_header
    [where st = "[''accessToken'' \<mapsto> ''abc'']" and t = "''abc''" and old = "''Basic xyz''"
       and cfg = "\<lparr> url = Some ''/problems'', http_method = Some ''get'', baseURL = None,
        headers = [''Authorization'' \<mapsto> ''Basic xyz''], data = None \<rparr>"]
    request_onFulfilled_existing_header
    [where st = "Map.empty" and t = "''abc''" and old = "''Basic xyz''"
       and cfg = "\<lparr> url = Some ''/problems'', http_method = Some ''get'', baseURL = None,
        headers = [''Authorization'' \<mapsto> ''Basic xyz''], data = None \<rparr>"]
  by simp

text \<open>
  C9 as written takes any stored token. With the empty string stored, the header that
  the caller set is not overwritten: it is still the caller's value, not \<^verbatim>\<open>Bearer \<close>
  followed by the stored (empty) value.
\<close>

theorem request_onFulfilled_existing_header_counterexample:
  "headers \<lparr> url = Some ''/problems'', http_method = Some ''get'', baseURL = None,
        headers = [''Authorization'' \<mapsto> ''Basic xyz''], data = None \<rparr> ''Authorization''
     = Some ''Basic xyz'' \<and>
   [''accessToken'' \<mapsto> ''''] ''accessToken'' = Some '''' \<and>
   headers (request_onFulfilled [''accessToken'' \<mapsto> '''']
      \<lparr> url = Some ''/problems'', http_method = Some ''get'', baseURL = None,
        headers = [''Authorization'' \<mapsto> ''Basic xyz''], data = None \<rparr>)
     ''Authorization'' = Some ''Basic xyz'' \<and>
   Some ''Basic xyz'' \<noteq> Some (''Bearer '' @ '''')"
  by (simp add: request_onFulfilled_def getItem_def truthy_def)

section \<open>The options of the client instance\<close>

text \<open>
  The source fixes the options object that is handed to the factory, and nothing about
  what the factory or the instance does with it. The options carry as \<^verbatim>\<open>baseURL\<close>
  the value that the environment supplies as \<^verbatim>\<open>VITE_API_BASE_URL\<close> (unset when the
  environment supplies none), and as headers exactly \<^verbatim>\<open>Content-Type\<close> with the value
  \<^verbatim>\<open>application/json\<close>. The instance depends on the environment through that one
  variable only. What a request issued through the instance then looks like (its target,
  the headers it carries, what a caller can override) is decided inside the axios
  library and is not stated here.
\<close>

lemma apiClient_options_baseURL:
  "baseURL (apiClient_options e) = e ''VITE_API_BASE_URL''"
  by (simp add: apiClient_options_def API_BASE_URL_def)

lemma apiClient_options_headers:
  "headers (apiClient_options e) = [''Content-Type'' \<mapsto> ''application/json'']"
  by (simp add: apiClient_options_def)

lemma apiClient_reads_one_variable:
  "e1 ''VITE_API_BASE_URL'' = e2 ''VITE_API_BASE_URL'' \<Longrightarrow>
   apiClient create e1 = apiClient create e2"
  by (simp add: apiClient_def apiClient_options_def API_BASE_URL_def)

section \<open>Properties of the route table\<close>

text \<open>
  C6. The route table declares exactly three paths, each with a placeholder heading:
  \<^verbatim>\<open>/login\<close> with an \<^verbatim>\<open>h1\<close> reading \<^verbatim>\<open>Login Page\<close>, \<^verbatim>\<open>/\<close> with an \<^verbatim>\<open>h1\<close>
  reading \<^verbatim>\<open>Dashboard Page\<close>, and \<^verbatim>\<open>/settings\<close> with an \<^verbatim>\<open>h1\<close> reading
  \<^verbatim>\<open>Settings Page\<close>; no other path has a declaration.
\<close>

theorem App_route_table:
  "map path App = [''/login'', ''/'', ''/settings''] \<and>
   declared_element App ''/login'' = Some (Element ''h1'' [Text ''Login Page'']) \<and>
   declared_element App ''/'' = Some (Element ''h1'' [Text ''Dashboard Page'']) \<and>
   declared_element App ''/settings'' = Some (Element ''h1'' [Text ''Settings Page'']) \<and>
   dom (declared_element App) = {''/login'', ''/'', ''/settings''}"
proof -
  have paths: "map path App = [''/login'', ''/'', ''/settings'']"
    by (simp add: App_def)
  have login: "declared_element App ''/login'' = Some (Element ''h1'' [Text ''Login Page''])"
    by (simp add: declared_element_def App_def h1_def)
  have dashboard: "declared_element App ''/'' = Some (Element ''h1'' [Text ''Dashboard Page''])"
    by (simp add: declared_element_def App_def h1_def)
  have settings: "declared_element App ''/settings'' = Some (Element ''h1'' [Text ''Settings Page''])"
    by (simp add: declared_element_def App_def h1_def)
  have "dom (declared_element App) = set (map path App)"
    unfolding declared_element_def
    by (simp add: dom_map_of_conv_image_fst image_image App_def)
  with paths have only: "dom (declared_element App) = {''/login'', ''/'', ''/settings''}"
    by simp
  from paths login dashboard settings only show ?thesis
    by blast
qed

end
